theory Spec2Isabelle
  imports Complex_Main
begin

section \<open>Matrix3x2: a mutable 2D affine transform\<close>

text \<open>
  The class \<^verbatim>\<open>Matrix3x2\<close> of \<^verbatim>\<open>src/matrix3x2.js\<close> owns a \<^verbatim>\<open>Float32Array(6)\<close>
  called \<^verbatim>\<open>buffer\<close>; every method reads and writes that array in place and returns
  \<^verbatim>\<open>this\<close>. Objects are modelled by references into an explicit heap, so that two
  names for one object (aliasing) and two objects with equal contents are different
  things, as they are in JavaScript.

  Numbers are kept abstract: the methods are defined over any type \<open>'a\<close> that has the
  arithmetic operations the source uses (they stand for the operations on doubles), and
  they build exactly the expressions of the source, in the source's order and
  bracketing. A write to a slot of a \<^verbatim>\<open>Float32Array\<close> converts the number to 32 bits;
  that conversion is the parameter \<open>f32\<close> of every method that writes a slot. The
  source's \<^verbatim>\<open>Math.cos\<close> and \<^verbatim>\<open>Math.sin\<close>, which the host provides, are parameters of
  \<^verbatim>\<open>rotate\<close>.

  Three readings of the numbers are used below: any type with any \<open>f32\<close> (what is proved
  so holds of the doubles of JavaScript); the type \<open>jsnum\<close> with the conversion
  \<open>fround32\<close> (signed zeros, infinities, \<^verbatim>\<open>NaN\<close>, rounding and overflow of the stored
  value); and the reals with no conversion (exact arithmetic), where the algebraic laws
  hold.
\<close>

subsection \<open>Data\<close>

text \<open>The six slots \<^verbatim>\<open>buffer[0]\<close> .. \<^verbatim>\<open>buffer[5]\<close> of a \<^verbatim>\<open>Float32Array(6)\<close>.\<close>

record 'a buffer =
  b0 :: 'a
  b1 :: 'a
  b2 :: 'a
  b3 :: 'a
  b4 :: 'a
  b5 :: 'a

text \<open>The collaborator \<^verbatim>\<open>Vector2\<close>: an object with two number fields \<^verbatim>\<open>x\<close>, \<^verbatim>\<open>y\<close>.\<close>

record 'a Vector2 =
  vec_x :: 'a
  vec_y :: 'a

text \<open>
  The heap: the buffer of every matrix object, the fields of every vector object, and
  the next unused matrix reference (for \<^verbatim>\<open>new Matrix3x2()\<close>).
\<close>

record 'a heap =
  matrices :: "nat \<Rightarrow> 'a buffer"
  vectors :: "nat \<Rightarrow> 'a Vector2"
  next_matrix :: nat

text \<open>
  \<^verbatim>\<open>m.buffer[i] = v\<close>: one write to one slot of the buffer of the matrix object \<open>m\<close>. The
  slot is named by the update function of its field (\<open>b0_update\<close> for slot 0); the value
  stored is \<open>v\<close> converted to float32.
\<close>

definition write_slot ::
  "('a \<Rightarrow> 'a) \<Rightarrow> nat \<Rightarrow> (('a \<Rightarrow> 'a) \<Rightarrow> 'a buffer \<Rightarrow> 'a buffer) \<Rightarrow> 'a \<Rightarrow> 'a heap \<Rightarrow> 'a heap" where
  "write_slot f32 m slot v h =
     h\<lparr>matrices := (matrices h)(m := slot (\<lambda>_. f32 v) (matrices h m))\<rparr>"

text \<open>
  \<^verbatim>\<open>v.x = ...\<close> and \<^verbatim>\<open>v.y = ...\<close>: one write to a field of the vector object \<open>v\<close>. The
  fields of a vector are plain numbers: nothing is converted.
\<close>

definition store_vec :: "nat \<Rightarrow> ('a Vector2 \<Rightarrow> 'a Vector2) \<Rightarrow> 'a heap \<Rightarrow> 'a heap" where
  "store_vec v f h = h\<lparr>vectors := (vectors h)(v := f (vectors h v))\<rparr>"

text \<open>Fluent chaining \<^verbatim>\<open>m.f(..).g(..)\<close>: the next call runs on the returned object.\<close>

definition chain :: "nat \<times> 'a heap \<Rightarrow> (nat \<Rightarrow> 'a heap \<Rightarrow> 'r) \<Rightarrow> 'r" where
  "chain r g = g (fst r) (snd r)"

subsection \<open>The methods\<close>


text \<open>
  \<^verbatim>\<open>set(other)\<close>: \<^verbatim>\<open>this.buffer.set(other.buffer)\<close> copies the six elements; both
  arrays hold float32 values, so the copy converts nothing.
\<close>

definition set_m :: "nat \<Rightarrow> nat \<Rightarrow> 'a heap \<Rightarrow> nat \<times> 'a heap" where
  "set_m this other h = (this, h\<lparr>matrices := (matrices h)(this := matrices h other)\<rparr>)"

text \<open>\<^verbatim>\<open>apply(vector)\<close>: both fields are read into locals before either is written.\<close>

definition apply_m :: "nat \<Rightarrow> nat \<Rightarrow> ('a::{plus,times}) heap \<Rightarrow> nat \<times> 'a heap" where
  "apply_m this vector h =
     (let px = vec_x (vectors h vector);
          py = vec_y (vectors h vector);
          h1 = store_vec vector (\<lambda>v. v\<lparr>vec_x :=
                 b0 (matrices h this) * px + b1 (matrices h this) * py + b2 (matrices h this)\<rparr>) h;
          h2 = store_vec vector (\<lambda>v. v\<lparr>vec_y :=
                 b3 (matrices h1 this) * px + b4 (matrices h1 this) * py + b5 (matrices h1 this)\<rparr>) h1
      in (vector, h2))"

text \<open>\<^verbatim>\<open>identity()\<close>: the chained assignments write slot 4 before 0, and 5, 3, 2, 1.\<close>

definition identity :: "('a \<Rightarrow> 'a) \<Rightarrow> nat \<Rightarrow> ('a::{zero,one}) heap \<Rightarrow> nat \<times> 'a heap" where
  "identity f32 this h =
     (let h1 = write_slot f32 this b4_update 1 h;
          h2 = write_slot f32 this b0_update 1 h1;
          h3 = write_slot f32 this b5_update 0 h2;
          h4 = write_slot f32 this b3_update 0 h3;
          h5 = write_slot f32 this b2_update 0 h4;
          h6 = write_slot f32 this b1_update 0 h5
      in (this, h6))"

text \<open>\<^verbatim>\<open>translate(x, y)\<close>: \<^verbatim>\<open>buffer[2] += ...\<close> is \<^verbatim>\<open>buffer[2] = buffer[2] + (...)\<close>.\<close>

definition translate ::
  "('a \<Rightarrow> 'a) \<Rightarrow> nat \<Rightarrow> 'a \<Rightarrow> 'a \<Rightarrow> ('a::{plus,times}) heap \<Rightarrow> nat \<times> 'a heap" where
  "translate f32 this x y h =
     (let h1 = write_slot f32 this b2_update
                 (b2 (matrices h this)
                    + (b0 (matrices h this) * x + b1 (matrices h this) * y)) h;
          h2 = write_slot f32 this b5_update
                 (b5 (matrices h1 this)
                    + (b3 (matrices h1 this) * x + b4 (matrices h1 this) * y)) h1
      in (this, h2))"

text \<open>\<^verbatim>\<open>translateAbsolute(x, y)\<close>.\<close>

definition translateAbsolute ::
  "('a \<Rightarrow> 'a) \<Rightarrow> nat \<Rightarrow> 'a \<Rightarrow> 'a \<Rightarrow> ('a::plus) heap \<Rightarrow> nat \<times> 'a heap" where
  "translateAbsolute f32 this x y h =
     (let h1 = write_slot f32 this b2_update (b2 (matrices h this) + x) h;
          h2 = write_slot f32 this b5_update (b5 (matrices h1 this) + y) h1
      in (this, h2))"

text \<open>
  \<^verbatim>\<open>rotate(angle)\<close>: \<^verbatim>\<open>Math.cos(angle)\<close> and \<^verbatim>\<open>Math.sin(angle)\<close> are computed by the
  host's functions \<open>mcos\<close> and \<open>msin\<close>; the six slots are read into locals, then
  rewritten.
\<close>

definition rotate_m ::
  "('a \<Rightarrow> 'a) \<Rightarrow> ('a \<Rightarrow> 'a) \<Rightarrow> ('a \<Rightarrow> 'a) \<Rightarrow> nat \<Rightarrow> 'a
     \<Rightarrow> ('a::{plus,minus,times}) heap \<Rightarrow> nat \<times> 'a heap" where
  "rotate_m f32 mcos msin this angle h =
     (let c = mcos angle; s = msin angle;
          m00 = b0 (matrices h this); m10 = b1 (matrices h this);
          m20 = b2 (matrices h this); m01 = b3 (matrices h this);
          m11 = b4 (matrices h this); m21 = b5 (matrices h this);
          h1 = write_slot f32 this b0_update (m00 * c - m01 * s) h;
          h2 = write_slot f32 this b1_update (m10 * c - m11 * s) h1;
          h3 = write_slot f32 this b2_update (m20 * c - m21 * s) h2;
          h4 = write_slot f32 this b3_update (m00 * s + m01 * c) h3;
          h5 = write_slot f32 this b4_update (m10 * s + m11 * c) h4;
          h6 = write_slot f32 this b5_update (m20 * s + m21 * c) h5
      in (this, h6))"

text \<open>\<^verbatim>\<open>scale(scale)\<close>: \<^verbatim>\<open>buffer[i] *= scale\<close> for all six slots.\<close>

definition scale :: "('a \<Rightarrow> 'a) \<Rightarrow> nat \<Rightarrow> 'a \<Rightarrow> ('a::times) heap \<Rightarrow> nat \<times> 'a heap" where
  "scale f32 this k h =
     (let h1 = write_slot f32 this b0_update (b0 (matrices h this) * k) h;
          h2 = write_slot f32 this b1_update (b1 (matrices h1 this) * k) h1;
          h3 = write_slot f32 this b2_update (b2 (matrices h2 this) * k) h2;
          h4 = write_slot f32 this b3_update (b3 (matrices h3 this) * k) h3;
          h5 = write_slot f32 this b4_update (b4 (matrices h4 this) * k) h4;
          h6 = write_slot f32 this b5_update (b5 (matrices h5 this) * k) h5
      in (this, h6))"

text \<open>
  \<^verbatim>\<open>multiply(other)\<close>: the receiver's six slots are read into locals first;
  \<^verbatim>\<open>other.buffer[i]\<close> is read at each assignment, from the heap as it is then.
\<close>

definition multiply ::
  "('a \<Rightarrow> 'a) \<Rightarrow> nat \<Rightarrow> nat \<Rightarrow> ('a::{plus,times}) heap \<Rightarrow> nat \<times> 'a heap" where
  "multiply f32 this other h =
     (let m00 = b0 (matrices h this); m10 = b1 (matrices h this);
          m20 = b2 (matrices h this); m01 = b3 (matrices h this);
          m11 = b4 (matrices h this); m21 = b5 (matrices h this);
          h1 = write_slot f32 this b0_update
                 (m00 * b0 (matrices h other) + m01 * b1 (matrices h other)) h;
          h2 = write_slot f32 this b1_update
                 (m10 * b0 (matrices h1 other) + m11 * b1 (matrices h1 other)) h1;
          h3 = write_slot f32 this b2_update
                 (m20 * b0 (matrices h2 other) + m21 * b1 (matrices h2 other)
                    + b2 (matrices h2 other)) h2;
          h4 = write_slot f32 this b3_update
                 (m00 * b3 (matrices h3 other) + m01 * b4 (matrices h3 other)) h3;
          h5 = write_slot f32 this b4_update
                 (m10 * b3 (matrices h4 other) + m11 * b4 (matrices h4 other)) h4;
          h6 = write_slot f32 this b5_update
                 (m20 * b3 (matrices h5 other) + m21 * b4 (matrices h5 other)
                    + b5 (matrices h5 other)) h5
      in (this, h6))"

text \<open>\<^verbatim>\<open>invert()\<close>: no test of the determinant; \<^verbatim>\<open>1 / (...)\<close> is whatever the numbers give.\<close>

definition invert ::
  "('a \<Rightarrow> 'a) \<Rightarrow> nat \<Rightarrow> ('a::{minus,uminus,times,inverse,one}) heap \<Rightarrow> nat \<times> 'a heap" where
  "invert f32 this h =
     (let m00 = b0 (matrices h this); m10 = b1 (matrices h this);
          m20 = b2 (matrices h this); m01 = b3 (matrices h this);
          m11 = b4 (matrices h this); m21 = b5 (matrices h this);
          i = 1 / (m00 * m11 - m10 * m01);
          h1 = write_slot f32 this b0_update (i * m11) h;
          h2 = write_slot f32 this b1_update (i * - m10) h1;
          h3 = write_slot f32 this b2_update (i * (m10 * m21 - m20 * m11)) h2;
          h4 = write_slot f32 this b3_update (i * - m01) h3;
          h5 = write_slot f32 this b4_update (i * m00) h4;
          h6 = write_slot f32 this b5_update (i * (m20 * m01 - m00 * m21)) h5
      in (this, h6))"


subsection \<open>Sequences of calls on one receiver\<close>

text \<open>
  The methods that write the receiver's buffer, as data, so that a statement can speak of
  any run of such calls on one matrix object.
\<close>

datatype 'a call =
    Identity
  | Translate 'a 'a
  | TranslateAbsolute 'a 'a
  | Rotate 'a
  | Scale 'a
  | Multiply nat
  | Invert
  | Set nat

fun call_m ::
  "('a \<Rightarrow> 'a) \<Rightarrow> ('a \<Rightarrow> 'a) \<Rightarrow> ('a \<Rightarrow> 'a) \<Rightarrow> nat \<Rightarrow> 'a call
     \<Rightarrow> ('a::{zero,one,plus,minus,uminus,times,inverse}) heap \<Rightarrow> 'a heap" where
  "call_m f32 mcos msin this Identity h = snd (identity f32 this h)"
| "call_m f32 mcos msin this (Translate x y) h = snd (translate f32 this x y h)"
| "call_m f32 mcos msin this (TranslateAbsolute x y) h = snd (translateAbsolute f32 this x y h)"
| "call_m f32 mcos msin this (Rotate angle) h = snd (rotate_m f32 mcos msin this angle h)"
| "call_m f32 mcos msin this (Scale k) h = snd (scale f32 this k h)"
| "call_m f32 mcos msin this (Multiply other) h = snd (multiply f32 this other h)"
| "call_m f32 mcos msin this Invert h = snd (invert f32 this h)"
| "call_m f32 mcos msin this (Set other) h = snd (set_m this other h)"

fun calls ::
  "('a \<Rightarrow> 'a) \<Rightarrow> ('a \<Rightarrow> 'a) \<Rightarrow> ('a \<Rightarrow> 'a) \<Rightarrow> nat \<Rightarrow> 'a call list
     \<Rightarrow> ('a::{zero,one,plus,minus,uminus,times,inverse}) heap \<Rightarrow> 'a heap" where
  "calls f32 mcos msin this [] h = h"
| "calls f32 mcos msin this (c # cs) h = calls f32 mcos msin this cs (call_m f32 mcos msin this c h)"

subsection \<open>Building heaps\<close>

definition mk_buffer :: "'a \<Rightarrow> 'a \<Rightarrow> 'a \<Rightarrow> 'a \<Rightarrow> 'a \<Rightarrow> 'a \<Rightarrow> 'a buffer" where
  "mk_buffer a b c d e f = \<lparr>b0 = a, b1 = b, b2 = c, b3 = d, b4 = e, b5 = f\<rparr>"

definition with_matrix :: "nat \<Rightarrow> 'a buffer \<Rightarrow> 'a heap \<Rightarrow> 'a heap" where
  "with_matrix m b h = h\<lparr>matrices := (matrices h)(m := b)\<rparr>"

definition with_vector :: "nat \<Rightarrow> 'a \<Rightarrow> 'a \<Rightarrow> 'a heap \<Rightarrow> 'a heap" where
  "with_vector v x y h = h\<lparr>vectors := (vectors h)(v := \<lparr>vec_x = x, vec_y = y\<rparr>)\<rparr>"

text \<open>A heap of \<open>n\<close> zero-filled matrices; every vector is at the origin.\<close>

definition heap0 :: "nat \<Rightarrow> ('a::zero) heap" where
  "heap0 n = \<lparr>matrices = (\<lambda>_. mk_buffer 0 0 0 0 0 0),
              vectors = (\<lambda>_. \<lparr>vec_x = 0, vec_y = 0\<rparr>),
              next_matrix = n\<rparr>"

subsection \<open>The specification's formulas for multiply\<close>

text \<open>
  The six formulas as the specification writes them for \<^verbatim>\<open>multiply\<close>, with
  \<open>[a,b,c,d,e,f]\<close> the receiver \<open>s\<close> and \<open>[a2,b2,c2,d2,e2,f2]\<close> the argument \<open>t\<close>:
  \<open>a' = a*a2 + d*b2\<close>, \<open>b' = a*d2 + d*e2\<close>, \<open>c' = a*c2 + d*f2 + c\<close>,
  \<open>d' = b*a2 + e*b2\<close>, \<open>e' = b*d2 + e*e2\<close>, \<open>f' = b*c2 + e*f2 + f\<close>.
  This definition follows the specification, not the source.
\<close>

definition multiply_as_specified :: "('a::{plus,times}) buffer \<Rightarrow> 'a buffer \<Rightarrow> 'a buffer" where
  "multiply_as_specified s t =
     \<lparr>b0 = b0 s * b0 t + b3 s * b1 t,
      b1 = b0 s * b3 t + b3 s * b4 t,
      b2 = b0 s * b2 t + b3 s * b5 t + b2 s,
      b3 = b1 s * b0 t + b4 s * b1 t,
      b4 = b1 s * b3 t + b4 s * b4 t,
      b5 = b1 s * b2 t + b4 s * b5 t + b5 s\<rparr>"

subsection \<open>Exact arithmetic\<close>

text \<open>
  No conversion at all. With the reals and this in the place of \<open>f32\<close> the methods compute
  without rounding or overflow; no JavaScript host computes so. The algebraic laws of
  the transforms are stated for this reading.
\<close>

definition unrounded :: "real \<Rightarrow> real" where
  "unrounded x = x"

subsection \<open>JavaScript numbers with their special values\<close>

text \<open>
  \<open>jsnum\<close>: the finite numbers, the negative zero, the two infinities and \<^verbatim>\<open>NaN\<close>, with
  the rules of IEEE 754 arithmetic for them (\<open>Fin 0\<close> is the positive zero). On two finite
  non-zero numbers \<open>+\<close>, \<open>-\<close>, \<open>*\<close> and \<open>/\<close> are those of the reals: the rounding of an
  arithmetic result to a double is not modelled. (Every concrete run below only performs
  operations whose results are doubles, so that nothing is lost there.) The conversion
  to float32 of a stored value, \<open>fround32\<close>, is modelled in full.
\<close>

datatype jsnum = Fin real | NegZero | PosInf | NegInf | NaN

text \<open>\<^verbatim>\<open>Number.isFinite\<close>.\<close>

definition isFinite :: "jsnum \<Rightarrow> bool" where
  "isFinite n = (case n of Fin _ \<Rightarrow> True | NegZero \<Rightarrow> True | _ \<Rightarrow> False)"

text \<open>\<^verbatim>\<open>n == 0\<close>: true of both zeros.\<close>

definition is_zero :: "jsnum \<Rightarrow> bool" where
  "is_zero n = (n = Fin 0 \<or> n = NegZero)"

definition is_inf :: "jsnum \<Rightarrow> bool" where
  "is_inf n = (n = PosInf \<or> n = NegInf)"

definition signbit :: "jsnum \<Rightarrow> bool" where
  "signbit n = (case n of Fin r \<Rightarrow> r < 0 | NegZero \<Rightarrow> True | PosInf \<Rightarrow> False
                  | NegInf \<Rightarrow> True | NaN \<Rightarrow> False)"

definition magnitude :: "jsnum \<Rightarrow> real" where
  "magnitude n = (case n of Fin r \<Rightarrow> r | _ \<Rightarrow> 0)"

definition signed_zero :: "bool \<Rightarrow> jsnum" where
  "signed_zero s = (if s then NegZero else Fin 0)"

definition signed_inf :: "bool \<Rightarrow> jsnum" where
  "signed_inf s = (if s then NegInf else PosInf)"

instantiation jsnum :: "{zero,one,plus,minus,uminus,times,inverse}"
begin

definition zero_jsnum :: jsnum where "zero_jsnum = Fin 0"

definition one_jsnum :: jsnum where "one_jsnum = Fin 1"

definition uminus_jsnum :: "jsnum \<Rightarrow> jsnum" where
  "uminus_jsnum n =
     (case n of Fin r \<Rightarrow> (if r = 0 then NegZero else Fin (- r))
        | NegZero \<Rightarrow> Fin 0 | PosInf \<Rightarrow> NegInf | NegInf \<Rightarrow> PosInf | NaN \<Rightarrow> NaN)"

definition plus_jsnum :: "jsnum \<Rightarrow> jsnum \<Rightarrow> jsnum" where
  "plus_jsnum m n =
     (if m = NaN \<or> n = NaN then NaN
      else if is_inf m \<and> is_inf n then (if m = n then m else NaN)
      else if is_inf m then m
      else if is_inf n then n
      else if m = NegZero \<and> n = NegZero then NegZero
      else Fin (magnitude m + magnitude n))"

definition minus_jsnum :: "jsnum \<Rightarrow> jsnum \<Rightarrow> jsnum" where
  "minus_jsnum m n = m + (- n)"

definition times_jsnum :: "jsnum \<Rightarrow> jsnum \<Rightarrow> jsnum" where
  "times_jsnum m n =
     (if m = NaN \<or> n = NaN then NaN
      else if (is_inf m \<and> is_zero n) \<or> (is_zero m \<and> is_inf n) then NaN
      else if is_inf m \<or> is_inf n then signed_inf (signbit m \<noteq> signbit n)
      else if is_zero m \<or> is_zero n then signed_zero (signbit m \<noteq> signbit n)
      else Fin (magnitude m * magnitude n))"

definition divide_jsnum :: "jsnum \<Rightarrow> jsnum \<Rightarrow> jsnum" where
  "divide_jsnum m n =
     (if m = NaN \<or> n = NaN then NaN
      else if (is_inf m \<and> is_inf n) \<or> (is_zero m \<and> is_zero n) then NaN
      else if is_inf m \<or> is_zero n then signed_inf (signbit m \<noteq> signbit n)
      else if is_zero m \<or> is_inf n then signed_zero (signbit m \<noteq> signbit n)
      else Fin (magnitude m / magnitude n))"

definition inverse_jsnum :: "jsnum \<Rightarrow> jsnum" where
  "inverse_jsnum n = Fin 1 div n"

instance ..

end

subsection \<open>The conversion to float32\<close>

text \<open>
  What a write to a \<^verbatim>\<open>Float32Array\<close> slot does to a number (and \<^verbatim>\<open>Math.fround\<close>):
  round to the nearest value with a 24-bit significand, ties to the even significand,
  with exponents from \<open>-126\<close> (below it the spacing stays \<open>2^-149\<close>: subnormal numbers)
  to \<open>127\<close>; a result of magnitude \<open>2^128\<close> or more is an infinity; a result that rounds to
  zero keeps the sign. Infinities, \<^verbatim>\<open>NaN\<close> and the zeros are unchanged.
\<close>

text \<open>The nearest integer, ties to even.\<close>

definition round_ties_even :: "real \<Rightarrow> int" where
  "round_ties_even q =
     (let f = \<lfloor>q\<rfloor>; d = q - of_int f
      in if d < 1 / 2 then f else if 1 / 2 < d then f + 1 else if even f then f else f + 1)"

text \<open>
  \<open>binade n e a\<close>: the least \<open>e' \<ge> e\<close> with \<open>a < 2^(e'+1)\<close>, looking at most \<open>n\<close> steps up.
\<close>

fun binade :: "nat \<Rightarrow> int \<Rightarrow> real \<Rightarrow> int" where
  "binade 0 e a = e"
| "binade (Suc n) e a = (if a < 2 powi (e + 1) then e else binade n (e + 1) a)"

text \<open>The float32 exponent of a magnitude: between \<open>-126\<close> and \<open>128\<close>.\<close>

definition float32_exponent :: "real \<Rightarrow> int" where
  "float32_exponent a = binade 254 (- 126) a"

definition fround32 :: "jsnum \<Rightarrow> jsnum" where
  "fround32 n =
     (case n of
        Fin r \<Rightarrow>
          (let a = \<bar>r\<bar>;
               ulp = 2 powi (float32_exponent a - 23);
               v = of_int (round_ties_even (a / ulp)) * ulp
           in if 2 ^ 128 \<le> v then signed_inf (r < 0)
              else if v = 0 then signed_zero (r < 0)
              else Fin (if r < 0 then - v else v))
      | _ \<Rightarrow> n)"

subsection \<open>The host's cosine and sine at \<^verbatim>\<open>Math.PI / 2\<close>\<close>

text \<open>
  \<^verbatim>\<open>Math.cos\<close> and \<^verbatim>\<open>Math.sin\<close> belong to the host, not to the repository, and
  ECMAScript leaves their precision to the implementation. The run that the
  specification describes calls them at \<^verbatim>\<open>Math.PI / 2\<close> only. That argument is the
  double \<open>884279719003555 / 2^49\<close>, a little below the real \<open>pi / 2\<close>; there an IEEE 754
  host returns the doubles nearest to the real cosine and sine,
  \<open>4967757600021511 / 2^106\<close> (printed \<^verbatim>\<open>6.123233995736766e-17\<close>) and \<open>1\<close>. The two tables
  below hold these values; at any other argument they say \<^verbatim>\<open>NaN\<close>, and no run below
  calls them there.
\<close>

definition Math_PI_half :: jsnum where
  "Math_PI_half = Fin (884279719003555 / 2 ^ 49)"

definition cos_table :: "jsnum \<Rightarrow> jsnum" where
  "cos_table t = (if t = Math_PI_half then Fin (4967757600021511 / 2 ^ 106) else NaN)"

definition sin_table :: "jsnum \<Rightarrow> jsnum" where
  "sin_table t = (if t = Math_PI_half then Fin 1 else NaN)"

subsection \<open>Predicates and example heaps\<close>

text \<open>A buffer, a vector, none of whose numbers is finite.\<close>

definition nonfinite_buffer :: "jsnum buffer \<Rightarrow> bool" where
  "nonfinite_buffer b =
     (\<not> isFinite (b0 b) \<and> \<not> isFinite (b1 b) \<and> \<not> isFinite (b2 b)
      \<and> \<not> isFinite (b3 b) \<and> \<not> isFinite (b4 b) \<and> \<not> isFinite (b5 b))"

definition nonfinite_vector :: "jsnum Vector2 \<Rightarrow> bool" where
  "nonfinite_vector v = (\<not> isFinite (vec_x v) \<and> \<not> isFinite (vec_y v))"

text \<open>A finite number of magnitude at most \<open>2^-50\<close>.\<close>

definition tiny :: "jsnum \<Rightarrow> bool" where
  "tiny n = (isFinite n \<and> \<bar>magnitude n\<bar> \<le> 1 / 2 ^ 50)"

text \<open>Heaps of JavaScript numbers; every number in them is a float32 value.\<close>

definition heap_pair :: "jsnum heap" where
  "heap_pair =
     with_matrix 0 (mk_buffer (Fin 1) (Fin 0) (Fin 2) (Fin 0) (Fin 1) (Fin 3))
       (with_matrix 1 (mk_buffer (Fin 2) (Fin 0) (Fin 0) (Fin 0) (Fin 2) (Fin 0)) (heap0 2))"

definition heap_round :: "jsnum heap" where
  "heap_round =
     with_matrix 0 (mk_buffer (Fin 1) (Fin 0) (Fin 0) (Fin 1) (Fin 1) (Fin 0))
       (with_matrix 1 (mk_buffer (Fin 16777216) (Fin 1) (Fin 0) (Fin 0) (Fin 1) (Fin 0))
          (heap0 2))"

definition heap_twins :: "jsnum heap" where
  "heap_twins =
     with_matrix 0 (mk_buffer (Fin 1) (Fin 1) (Fin 0) (Fin 1) (Fin 0) (Fin 0))
       (with_matrix 1 (mk_buffer (Fin 1) (Fin 1) (Fin 0) (Fin 1) (Fin 0) (Fin 0)) (heap0 2))"



definition heap_big :: "jsnum heap" where
  "heap_big =
     with_matrix 0 (mk_buffer (Fin (2 ^ 127)) (Fin 0) (Fin 0) (Fin 0) (Fin (2 ^ 127)) (Fin 0))
       (heap0 1)"

definition heap_copy :: "jsnum heap" where
  "heap_copy =
     with_matrix 0 (mk_buffer (Fin 1) (Fin 2) (Fin 3) (Fin 4) (Fin 5) (Fin 6)) (heap0 2)"

definition heap_small :: "jsnum heap" where
  "heap_small =
     with_vector 0 (Fin 5) (Fin 7)
       (with_matrix 0
          (mk_buffer (Fin (1 / 2 ^ 140)) (Fin 0) (Fin 0) (Fin 0) (Fin (1 / 2 ^ 140)) (Fin 0))
          (heap0 1))"

definition heap_singular :: "jsnum heap" where
  "heap_singular =
     with_vector 0 (Fin 5) (Fin 7)
       (with_matrix 0 (mk_buffer 1 0 (Fin 2) 0 0 (Fin 3)) (heap0 1))"


definition heap_invertible :: "real heap" where
  "heap_invertible =
     with_vector 0 5 7 (with_matrix 0 (mk_buffer 2 1 3 1 1 5) (heap0 2))"

subsection \<open>Basic facts about the heap\<close>

lemma matrices_write_slot [simp]:
  "matrices (write_slot f32 m slot v h) = (matrices h)(m := slot (\<lambda>_. f32 v) (matrices h m))"
  by (simp add: write_slot_def)

lemma vectors_write_slot [simp]: "vectors (write_slot f32 m slot v h) = vectors h"
  by (simp add: write_slot_def)

lemma next_matrix_write_slot [simp]: "next_matrix (write_slot f32 m slot v h) = next_matrix h"
  by (simp add: write_slot_def)

lemma matrices_store_vec [simp]: "matrices (store_vec v f h) = matrices h"
  by (simp add: store_vec_def)

lemma vectors_store_vec [simp]:
  "vectors (store_vec v f h) = (vectors h)(v := f (vectors h v))"
  by (simp add: store_vec_def)

lemma next_matrix_store_vec [simp]: "next_matrix (store_vec v f h) = next_matrix h"
  by (simp add: store_vec_def)

lemma matrices_with_matrix [simp]: "matrices (with_matrix m b h) = (matrices h)(m := b)"
  by (simp add: with_matrix_def)

lemma vectors_with_matrix [simp]: "vectors (with_matrix m b h) = vectors h"
  by (simp add: with_matrix_def)

lemma next_matrix_with_matrix [simp]: "next_matrix (with_matrix m b h) = next_matrix h"
  by (simp add: with_matrix_def)

lemma matrices_with_vector [simp]: "matrices (with_vector v x y h) = matrices h"
  by (simp add: with_vector_def)

lemma vectors_with_vector [simp]:
  "vectors (with_vector v x y h) = (vectors h)(v := \<lparr>vec_x = x, vec_y = y\<rparr>)"
  by (simp add: with_vector_def)

lemma next_matrix_with_vector [simp]: "next_matrix (with_vector v x y h) = next_matrix h"
  by (simp add: with_vector_def)

lemma mk_buffer_sel [simp]:
  "b0 (mk_buffer a b c d e f) = a" "b1 (mk_buffer a b c d e f) = b"
  "b2 (mk_buffer a b c d e f) = c" "b3 (mk_buffer a b c d e f) = d"
  "b4 (mk_buffer a b c d e f) = e" "b5 (mk_buffer a b c d e f) = f"
  by (simp_all add: mk_buffer_def)

lemma mk_buffer_eq_iff [simp]:
  "mk_buffer a b c d e f = mk_buffer a' b' c' d' e' f'
     \<longleftrightarrow> a = a' \<and> b = b' \<and> c = c' \<and> d = d' \<and> e = e' \<and> f = f'"
  by (simp add: mk_buffer_def)

lemma chain_pair [simp]: "chain (r, h) g = g r h"
  by (simp add: chain_def)

subsection \<open>What each method leaves in the heap\<close>

text \<open>
  Each method is a run of single writes. The lemmas below collapse such a run into the
  one buffer it leaves behind; only for \<^verbatim>\<open>multiply\<close> does this need the argument to be
  another object than the receiver.
\<close>

lemma set_m_eq: "set_m this other h = (this, with_matrix this (matrices h other) h)"
  by (simp add: set_m_def with_matrix_def)

lemma apply_m_eq:
  "apply_m this vector h =
     (vector,
      with_vector vector
        (b0 (matrices h this) * vec_x (vectors h vector)
           + b1 (matrices h this) * vec_y (vectors h vector) + b2 (matrices h this))
        (b3 (matrices h this) * vec_x (vectors h vector)
           + b4 (matrices h this) * vec_y (vectors h vector) + b5 (matrices h this)) h)"
  by (cases "vectors h vector")
     (simp add: apply_m_def store_vec_def with_vector_def Let_def)

lemma identity_eq:
  "identity f32 this h =
     (this, with_matrix this (mk_buffer (f32 1) (f32 0) (f32 0) (f32 0) (f32 1) (f32 0)) h)"
  by (cases "matrices h this")
     (simp add: identity_def write_slot_def with_matrix_def mk_buffer_def Let_def)

lemma translate_eq:
  "translate f32 this x y h =
     (this, with_matrix this
        ((matrices h this)
           \<lparr>b2 := f32 (b2 (matrices h this)
                        + (b0 (matrices h this) * x + b1 (matrices h this) * y)),
            b5 := f32 (b5 (matrices h this)
                        + (b3 (matrices h this) * x + b4 (matrices h this) * y))\<rparr>) h)"
  by (simp add: translate_def write_slot_def with_matrix_def Let_def)

lemma translateAbsolute_eq:
  "translateAbsolute f32 this x y h =
     (this, with_matrix this
        ((matrices h this)\<lparr>b2 := f32 (b2 (matrices h this) + x),
                            b5 := f32 (b5 (matrices h this) + y)\<rparr>) h)"
  by (simp add: translateAbsolute_def write_slot_def with_matrix_def Let_def)

lemma rotate_m_eq:
  "rotate_m f32 mcos msin this angle h =
     (this, with_matrix this
        (mk_buffer
           (f32 (b0 (matrices h this) * mcos angle - b3 (matrices h this) * msin angle))
           (f32 (b1 (matrices h this) * mcos angle - b4 (matrices h this) * msin angle))
           (f32 (b2 (matrices h this) * mcos angle - b5 (matrices h this) * msin angle))
           (f32 (b0 (matrices h this) * msin angle + b3 (matrices h this) * mcos angle))
           (f32 (b1 (matrices h this) * msin angle + b4 (matrices h this) * mcos angle))
           (f32 (b2 (matrices h this) * msin angle + b5 (matrices h this) * mcos angle))) h)"
  by (cases "matrices h this")
     (simp add: rotate_m_def write_slot_def with_matrix_def mk_buffer_def Let_def)

lemma scale_eq:
  "scale f32 this k h =
     (this, with_matrix this
        (mk_buffer (f32 (b0 (matrices h this) * k)) (f32 (b1 (matrices h this) * k))
           (f32 (b2 (matrices h this) * k)) (f32 (b3 (matrices h this) * k))
           (f32 (b4 (matrices h this) * k)) (f32 (b5 (matrices h this) * k))) h)"
  by (cases "matrices h this")
     (simp add: scale_def write_slot_def with_matrix_def mk_buffer_def Let_def)

lemma multiply_eq:
  "this \<noteq> other \<Longrightarrow>
   multiply f32 this other h =
     (this, with_matrix this
        (mk_buffer
           (f32 (b0 (matrices h this) * b0 (matrices h other)
                   + b3 (matrices h this) * b1 (matrices h other)))
           (f32 (b1 (matrices h this) * b0 (matrices h other)
                   + b4 (matrices h this) * b1 (matrices h other)))
           (f32 (b2 (matrices h this) * b0 (matrices h other)
                   + b5 (matrices h this) * b1 (matrices h other) + b2 (matrices h other)))
           (f32 (b0 (matrices h this) * b3 (matrices h other)
                   + b3 (matrices h this) * b4 (matrices h other)))
           (f32 (b1 (matrices h this) * b3 (matrices h other)
                   + b4 (matrices h this) * b4 (matrices h other)))
           (f32 (b2 (matrices h this) * b3 (matrices h other)
                   + b5 (matrices h this) * b4 (matrices h other) + b5 (matrices h other)))) h)"
  by (cases "matrices h this")
     (simp add: multiply_def write_slot_def with_matrix_def mk_buffer_def Let_def)

lemma invert_eq:
  "invert f32 this h =
     (this, with_matrix this
        (mk_buffer
           (f32 (1 / (b0 (matrices h this) * b4 (matrices h this)
                   - b1 (matrices h this) * b3 (matrices h this)) * b4 (matrices h this)))
           (f32 (1 / (b0 (matrices h this) * b4 (matrices h this)
                   - b1 (matrices h this) * b3 (matrices h this)) * - b1 (matrices h this)))
           (f32 (1 / (b0 (matrices h this) * b4 (matrices h this)
                   - b1 (matrices h this) * b3 (matrices h this))
              * (b1 (matrices h this) * b5 (matrices h this)
                   - b2 (matrices h this) * b4 (matrices h this))))
           (f32 (1 / (b0 (matrices h this) * b4 (matrices h this)
                   - b1 (matrices h this) * b3 (matrices h this)) * - b3 (matrices h this)))
           (f32 (1 / (b0 (matrices h this) * b4 (matrices h this)
                   - b1 (matrices h this) * b3 (matrices h this)) * b0 (matrices h this)))
           (f32 (1 / (b0 (matrices h this) * b4 (matrices h this)
                   - b1 (matrices h this) * b3 (matrices h this))
              * (b2 (matrices h this) * b3 (matrices h this)
                   - b0 (matrices h this) * b5 (matrices h this))))) h)"
  by (cases "matrices h this")
     (simp add: invert_def write_slot_def with_matrix_def mk_buffer_def Let_def)


subsection \<open>Facts about the JavaScript numbers\<close>

lemmas jsnum_defs =
  is_zero_def is_inf_def isFinite_def signbit_def magnitude_def signed_zero_def signed_inf_def
  zero_jsnum_def one_jsnum_def uminus_jsnum_def plus_jsnum_def minus_jsnum_def
  times_jsnum_def divide_jsnum_def

lemma one_over_zero: "is_zero d \<Longrightarrow> is_inf (1 / d)"
  by (cases d) (simp_all add: jsnum_defs)

lemma inf_times: "is_inf m \<Longrightarrow> \<not> isFinite (m * n)"
  by (cases m; cases n) (simp_all add: jsnum_defs)

lemma nonfinite_plus_right: "\<not> isFinite n \<Longrightarrow> \<not> isFinite (m + n)"
  by (cases m; cases n) (simp_all add: jsnum_defs)

lemma times_uminus_jsnum: "m * - n = - (m * n)" for m n :: jsnum
  by (cases m; cases n) (simp_all add: jsnum_defs)

subsection \<open>Facts about the conversion to float32\<close>

lemma round_ties_even_of_int [simp]: "round_ties_even (of_int m) = m"
  by (simp add: round_ties_even_def)

lemma round_ties_even_le: "q \<le> of_int M \<Longrightarrow> round_ties_even q \<le> M"
proof -
  assume q: "q \<le> of_int M"
  have f: "\<lfloor>q\<rfloor> \<le> M" using floor_mono [OF q] by simp
  show ?thesis
  proof (cases "\<lfloor>q\<rfloor> = M")
    case True
    then have "of_int M \<le> q" using of_int_floor_le [of q] by simp
    with q have "q = of_int M" by simp
    then show ?thesis by simp
  next
    case False
    with f have "\<lfloor>q\<rfloor> + 1 \<le> M" by simp
    then show ?thesis using f by (simp add: round_ties_even_def Let_def)
  qed
qed

lemma round_ties_even_ge: "of_int M \<le> q \<Longrightarrow> M \<le> round_ties_even q"
proof -
  assume "of_int M \<le> q"
  then have "M \<le> \<lfloor>q\<rfloor>" by (simp add: le_floor_iff)
  then show ?thesis by (simp add: round_ties_even_def Let_def)
qed

lemma binade_ge: "e0 \<le> binade n e0 a"
proof (induction n arbitrary: e0)
  case 0
  show ?case by simp
next
  case (Suc n)
  have "e0 + 1 \<le> binade n (e0 + 1) a" by (rule Suc.IH)
  then show ?case by simp
qed

lemma binade_le_fuel: "binade n e0 a \<le> e0 + int n"
proof (induction n arbitrary: e0)
  case 0
  show ?case by simp
next
  case (Suc n)
  have "binade n (e0 + 1) a \<le> e0 + 1 + int n" by (rule Suc.IH)
  then show ?case by simp
qed

lemma binade_le: "a < 2 powi (k + 1) \<Longrightarrow> e0 \<le> k \<Longrightarrow> binade n e0 a \<le> k"
proof (induction n arbitrary: e0)
  case 0
  then show ?case by simp
next
  case (Suc n)
  show ?case
  proof (cases "a < 2 powi (e0 + 1)")
    case True
    then show ?thesis using Suc.prems by simp
  next
    case False
    have "e0 < k"
    proof (rule ccontr)
      assume "\<not> e0 < k"
      then have "k + 1 \<le> e0 + 1" by simp
      then have "(2::real) powi (k + 1) \<le> 2 powi (e0 + 1)"
        by (intro power_int_increasing) simp_all
      with Suc.prems(1) False show False by simp
    qed
    then have "binade n (e0 + 1) a \<le> k"
      using Suc.IH [of "e0 + 1"] Suc.prems(1) by simp
    then show ?thesis using False by simp
  qed
qed

lemma binade_upper: "binade n e0 a < e0 + int n \<Longrightarrow> a < 2 powi (binade n e0 a + 1)"
proof (induction n arbitrary: e0)
  case 0
  then show ?case by simp
next
  case (Suc n)
  show ?case
  proof (cases "a < 2 powi (e0 + 1)")
    case True
    then show ?thesis by simp
  next
    case False
    then have "binade (Suc n) e0 a = binade n (e0 + 1) a" by simp
    moreover have "binade n (e0 + 1) a < e0 + 1 + int n"
      using Suc.prems False by simp
    ultimately show ?thesis using Suc.IH [of "e0 + 1"] by simp
  qed
qed

lemma binade_eq:
  assumes "2 powi e \<le> a" "a < 2 powi (e + 1)" "e0 \<le> e" "e < e0 + int n"
  shows "binade n e0 a = e"
proof -
  have le: "binade n e0 a \<le> e" using assms(2,3) by (rule binade_le)
  have "\<not> binade n e0 a < e"
  proof
    assume less: "binade n e0 a < e"
    then have "binade n e0 a < e0 + int n" using assms(4) by simp
    then have "a < 2 powi (binade n e0 a + 1)" by (rule binade_upper)
    also have "(2::real) powi (binade n e0 a + 1) \<le> 2 powi e"
      using less by (intro power_int_increasing) simp_all
    finally show False using assms(1) by simp
  qed
  with le show ?thesis by simp
qed

lemma float32_exponent_eq:
  "2 powi e \<le> a \<Longrightarrow> a < 2 powi (e + 1) \<Longrightarrow> - 126 \<le> e \<Longrightarrow> e \<le> 127
     \<Longrightarrow> float32_exponent a = e"
  unfolding float32_exponent_def by (rule binade_eq) simp_all

lemma float32_exponent_range: "- 126 \<le> float32_exponent a" "float32_exponent a \<le> 128"
  unfolding float32_exponent_def
  using binade_ge [of "- 126" 254 a] binade_le_fuel [of 254 "- 126" a] by simp_all

lemma float32_exponent_le:
  "a < 2 powi (k + 1) \<Longrightarrow> - 126 \<le> k \<Longrightarrow> float32_exponent a \<le> k"
  unfolding float32_exponent_def by (rule binade_le)

lemma round_ties_even_0 [simp]: "round_ties_even 0 = 0"
  by (simp add: round_ties_even_def)

lemma fround32_special [simp]:
  "fround32 NegZero = NegZero" "fround32 PosInf = PosInf" "fround32 NegInf = NegInf"
  "fround32 NaN = NaN" "fround32 (Fin 0) = Fin 0"
  by (simp_all add: fround32_def signed_zero_def)

lemma fround32_overflow:
  assumes "2 ^ 128 \<le> \<bar>r\<bar>"
  shows "fround32 (Fin r) = signed_inf (r < 0)"
proof -
  define e where "e = float32_exponent \<bar>r\<bar>"
  define ulp :: real where "ulp = 2 powi (e - 23)"
  have e: "e \<le> 128" unfolding e_def by (rule float32_exponent_range)
  have ulp: "0 < ulp" by (simp add: ulp_def)
  have "ulp * 2 powi (151 - e) = 2 powi 128"
    unfolding ulp_def by (simp flip: power_int_add)
  moreover have "(2::real) powi (151 - e) = of_int (2 ^ nat (151 - e))"
    using e by (simp add: power_int_def)
  ultimately have M: "of_int (2 ^ nat (151 - e)) * ulp = 2 ^ 128"
    by (simp add: mult.commute)
  have "of_int (2 ^ nat (151 - e)) \<le> \<bar>r\<bar> / ulp"
    using assms M ulp by (simp add: pos_le_divide_eq)
  then have "2 ^ nat (151 - e) \<le> round_ties_even (\<bar>r\<bar> / ulp)"
    by (rule round_ties_even_ge)
  then have "of_int (2 ^ nat (151 - e)) * ulp \<le> of_int (round_ties_even (\<bar>r\<bar> / ulp)) * ulp"
    using ulp by (simp del: of_int_power)
  then have "2 ^ 128 \<le> of_int (round_ties_even (\<bar>r\<bar> / ulp)) * ulp"
    using M by simp
  then show ?thesis
    by (simp add: fround32_def Let_def e_def ulp_def)
qed

lemma fround32_representable:
  assumes m: "m \<noteq> 0" "\<bar>m\<bar> < 2 ^ 24" and x: "- 149 \<le> x" "x \<le> 104"
  shows "fround32 (Fin (of_int m * 2 powi x)) = Fin (of_int m * 2 powi x)"
proof -
  define r :: real where "r = of_int m * 2 powi x"
  define a where "a = \<bar>r\<bar>"
  define e where "e = float32_exponent a"
  define ulp :: real where "ulp = 2 powi (e - 23)"
  have a: "a = of_int \<bar>m\<bar> * 2 powi x"
    by (simp add: a_def r_def abs_mult)
  have ulp: "0 < ulp" by (simp add: ulp_def)
  have r0: "r \<noteq> 0" using m by (simp add: r_def)
  have lt: "a < 2 powi (x + 24)"
  proof -
    have "of_int \<bar>m\<bar> < (2::real) ^ 24" using m(2) by (metis of_int_less_numeral_power_cancel_iff)
    then have "of_int \<bar>m\<bar> * 2 powi x < (2::real) ^ 24 * 2 powi x" by simp
    also have "\<dots> = 2 powi (x + 24)" by (simp add: power_int_add)
    finally show ?thesis by (simp add: a)
  qed
  have e_ge: "- 126 \<le> e" unfolding e_def by (rule float32_exponent_range)
  have k: "0 \<le> x - e + 23"
  proof (cases "- 126 \<le> x + 23")
    case True
    have "e \<le> x + 23" unfolding e_def
      using lt True by (intro float32_exponent_le) (simp_all add: add.commute)
    then show ?thesis by simp
  next
    case False
    then have "x + 24 \<le> - 125" by simp
    then have "(2::real) powi (x + 24) \<le> 2 powi (- 126 + 1)"
      by (intro power_int_increasing) simp_all
    with lt have "a < 2 powi (- 126 + 1)" by simp
    then have "e \<le> - 126" unfolding e_def by (rule float32_exponent_le) simp
    then show ?thesis using x by simp
  qed
  have "a / ulp = of_int \<bar>m\<bar> * 2 powi (x - e + 23)"
    unfolding a ulp_def by (simp add: power_int_diff power_int_add field_simps)
  also have "(2::real) powi (x - e + 23) = of_int (2 ^ nat (x - e + 23))"
    using k by (simp add: power_int_def)
  finally have q: "a / ulp = of_int (\<bar>m\<bar> * 2 ^ nat (x - e + 23))" by simp
  have v: "of_int (round_ties_even (a / ulp)) * ulp = a"
    unfolding q round_ties_even_of_int using q ulp by (simp add: field_simps)
  have small: "a < 2 ^ 128"
  proof -
    have "(2::real) powi (x + 24) \<le> 2 powi 128"
      using x by (intro power_int_increasing) simp_all
    with lt show ?thesis by simp
  qed
  have a0: "a \<noteq> 0" "0 \<le> a" using r0 by (simp_all add: a_def)
  have "fround32 (Fin r) = Fin (if r < 0 then - a else a)"
    using v small a0
    by (simp add: fround32_def Let_def a_def [symmetric] e_def [symmetric] ulp_def [symmetric])
  also have "(if r < 0 then - a else a) = r" by (simp add: a_def)
  finally show ?thesis by (simp add: r_def)
qed

lemma fround32_bound:
  assumes r: "\<bar>r\<bar> \<le> 2 powi k" and k: "- 126 \<le> k" "k \<le> 127"
  shows "\<exists>v. fround32 (Fin r) = (if v = 0 then signed_zero (r < 0) else Fin v) \<and> \<bar>v\<bar> \<le> 2 powi k"
proof -
  define a where "a = \<bar>r\<bar>"
  define e where "e = float32_exponent a"
  define ulp :: real where "ulp = 2 powi (e - 23)"
  define n where "n = round_ties_even (a / ulp)"
  have ulp: "0 < ulp" by (simp add: ulp_def)
  have "(2::real) powi k < 2 powi (k + 1)"
    by (intro power_int_strict_increasing) simp_all
  with r have "a < 2 powi (k + 1)" by (simp add: a_def)
  then have e: "e \<le> k" unfolding e_def using k(1) by (rule float32_exponent_le)
  have "ulp * 2 powi (k - e + 23) = 2 powi k"
    unfolding ulp_def by (simp flip: power_int_add)
  moreover have "(2::real) powi (k - e + 23) = of_int (2 ^ nat (k - e + 23))"
    using e by (simp add: power_int_def)
  ultimately have M: "of_int (2 ^ nat (k - e + 23)) * ulp = 2 powi k"
    by (simp add: mult.commute)
  have "a / ulp \<le> of_int (2 ^ nat (k - e + 23))"
    using r M ulp by (simp add: pos_divide_le_eq a_def)
  then have "n \<le> 2 ^ nat (k - e + 23)"
    unfolding n_def by (rule round_ties_even_le)
  then have "of_int n * ulp \<le> of_int (2 ^ nat (k - e + 23)) * ulp"
    using ulp by (simp del: of_int_power)
  then have upper: "of_int n * ulp \<le> 2 powi k" using M by simp
  have "0 \<le> a / ulp" using ulp by (simp add: a_def)
  then have "of_int 0 \<le> a / ulp" by simp
  then have "0 \<le> n" unfolding n_def by (rule round_ties_even_ge)
  then have lower: "0 \<le> of_int n * ulp" using ulp by simp
  have "(2::real) powi k \<le> 2 powi 127"
    using k by (intro power_int_increasing) simp_all
  also have "\<dots> < 2 ^ 128" by simp
  finally have fin: "\<not> 2 ^ 128 \<le> of_int n * ulp" using upper by simp
  define v where "v = (if r < 0 then - (of_int n * ulp) else of_int n * ulp)"
  have "fround32 (Fin r) = (if v = 0 then signed_zero (r < 0) else Fin v)"
    using fin
    by (simp add: fround32_def Let_def a_def [symmetric] e_def [symmetric] ulp_def [symmetric]
          n_def [symmetric] v_def)
  moreover have "\<bar>v\<bar> \<le> 2 powi k" using upper lower by (simp add: v_def)
  ultimately show ?thesis by blast
qed

lemma fround32_cos_half_pi:
  "fround32 (Fin (4967757600021511 / 2 ^ 106)) = Fin (9253170 / 2 ^ 77)"
proof -
  have e: "float32_exponent \<bar>4967757600021511 / 2 ^ 106\<bar> = - 54"
    by (rule float32_exponent_eq) simp_all
  have q: "\<bar>4967757600021511 / 2 ^ 106 :: real\<bar> / 2 powi (- 54 - 23) = 4967757600021511 / 536870912"
    by simp
  have n: "round_ties_even (4967757600021511 / 536870912) = 9253170"
    by (simp add: round_ties_even_def Let_def)
  show ?thesis
    unfolding fround32_def jsnum.case Let_def e q n by simp
qed

lemma numeral_int_small:
  assumes "numeral w < (16777216::real)"
  shows "\<bar>numeral w :: int\<bar> < 2 ^ 24"
proof -
  from assms have "(of_int (numeral w) :: real) < of_int 16777216" by simp
  then have "(numeral w :: int) < 16777216" unfolding of_int_less_iff .
  then show ?thesis by simp
qed

lemma fround32_numeral [simp]:
  "numeral w < (16777216::real) \<Longrightarrow> fround32 (Fin (numeral w)) = Fin (numeral w)"
  "numeral w < (16777216::real) \<Longrightarrow> fround32 (Fin (- numeral w)) = Fin (- numeral w)"
  "fround32 (Fin 1) = Fin 1" "fround32 (Fin (- 1)) = Fin (- 1)"
proof -
  show "fround32 (Fin (numeral w)) = Fin (numeral w)" if "numeral w < (16777216::real)"
    using fround32_representable [of "numeral w" 0] numeral_int_small [OF that] by simp
  show "fround32 (Fin (- numeral w)) = Fin (- numeral w)" if "numeral w < (16777216::real)"
    using fround32_representable [of "- numeral w" 0] numeral_int_small [OF that] by simp
  show "fround32 (Fin 1) = Fin 1"
    using fround32_representable [of 1 0] by simp
  show "fround32 (Fin (- 1)) = Fin (- 1)"
    using fround32_representable [of "- 1" 0] by simp
qed

lemma fround32_nonfinite: "\<not> isFinite n \<Longrightarrow> \<not> isFinite (fround32 n)"
  by (cases n) (simp_all add: isFinite_def)

lemma fround32_tie: "fround32 (Fin 16777217) = Fin 16777216"
proof -
  have e: "float32_exponent \<bar>16777217\<bar> = 24"
    by (rule float32_exponent_eq) simp_all
  have n: "round_ties_even (16777217 / 2) = 8388608"
    by (simp add: round_ties_even_def Let_def)
  show ?thesis
    unfolding fround32_def jsnum.case Let_def e by (simp add: n)
qed

lemma tiny_fround32: "tiny n \<Longrightarrow> tiny (fround32 n)"
proof (cases n)
  case (Fin r)
  assume "tiny n"
  with Fin have "\<bar>r\<bar> \<le> 2 powi (- 50)"
    by (simp add: tiny_def magnitude_def)
  then obtain v where v: "fround32 (Fin r) = (if v = 0 then signed_zero (r < 0) else Fin v)"
    "\<bar>v\<bar> \<le> 2 powi (- 50)"
    using fround32_bound [of r "- 50"] by auto
  then show ?thesis
    using Fin by (simp add: tiny_def isFinite_def magnitude_def signed_zero_def)
qed (simp_all add: tiny_def isFinite_def magnitude_def)

lemma rotate_identity_slots:
  "Fin 1 * Fin eps - Fin 0 * Fin 1 = Fin eps"
  "Fin 0 * Fin eps - Fin 1 * Fin 1 = Fin (- 1)"
  "is_zero (Fin 0 * Fin eps - Fin 0 * Fin 1)"
  "Fin 1 * Fin 1 + Fin 0 * Fin eps = Fin 1"
  "Fin 0 * Fin 1 + Fin 1 * Fin eps = Fin eps"
  "Fin 0 * Fin 1 + Fin 0 * Fin eps = Fin 0"
  by (simp_all add: jsnum_defs)

lemma is_zero_cases: "is_zero z \<Longrightarrow> z = Fin 0 \<or> z = NegZero"
  by (simp add: is_zero_def)

lemma tiny_cases:
  assumes "tiny n"
  obtains "n = Fin 0" | "n = NegZero" | v where "n = Fin v" "v \<noteq> 0" "\<bar>v\<bar> \<le> 1 / 2 ^ 50"
  using assms by (cases n) (auto simp add: tiny_def isFinite_def magnitude_def)

lemma approximate_run:
  assumes B: "tiny B" and Z: "is_zero Z"
  shows "tiny (B * Fin 0 + Fin (- 1) * Fin 0 + fround32 (Z + (B * Fin 1 + Fin (- 1) * Fin 0)))"
    and "Fin 1 * Fin 0 + B * Fin 0 + fround32 (Fin 0 + (Fin 1 * Fin 1 + B * Fin 0)) = Fin 1"
proof -
  from Z have Zc: "Z = Fin 0 \<or> Z = NegZero" by (rule is_zero_cases)
  from B show "Fin 1 * Fin 0 + B * Fin 0 + fround32 (Fin 0 + (Fin 1 * Fin 1 + B * Fin 0)) = Fin 1"
    by (cases rule: tiny_cases) (simp_all add: jsnum_defs)
  from B show "tiny (B * Fin 0 + Fin (- 1) * Fin 0
                 + fround32 (Z + (B * Fin 1 + Fin (- 1) * Fin 0)))"
  proof (cases rule: tiny_cases)
    case 1
    then show ?thesis using Zc by (auto simp add: jsnum_defs tiny_def)
  next
    case 2
    then show ?thesis using Zc by (auto simp add: jsnum_defs tiny_def)
  next
    case (3 v)
    have inner: "Z + (B * Fin 1 + Fin (- 1) * Fin 0) = Fin v"
      using 3 Zc by (auto simp add: jsnum_defs)
    have "tiny (Fin v)" using 3 by (simp add: tiny_def isFinite_def magnitude_def)
    then have "tiny (fround32 (Fin v))" by (rule tiny_fround32)
    moreover have "is_zero (B * Fin 0 + Fin (- 1) * Fin 0)"
      using 3 by (simp add: jsnum_defs)
    ultimately show ?thesis
      unfolding inner
      by (cases "fround32 (Fin v)" rule: tiny_cases)
         (auto dest!: is_zero_cases simp add: jsnum_defs tiny_def)
  qed
qed

subsection \<open>apply\<close>

text \<open>
  C3. For a matrix with coefficients \<open>[a,b,c,d,e,f]\<close> and a point \<open>(x,y)\<close>, \<open>apply\<close> sets
  the point to \<open>x' = a*x + b*y + c\<close>, \<open>y' = d*x + e*y + f\<close>, both computed from the
  coordinates the point had before the call; it changes that point object in place (and
  nothing else in the heap) and returns that same point.
\<close>

theorem apply_formula:
  "apply_m this vector h =
     (vector,
      h\<lparr>vectors := (vectors h)(vector :=
          \<lparr>vec_x = b0 (matrices h this) * vec_x (vectors h vector)
                    + b1 (matrices h this) * vec_y (vectors h vector) + b2 (matrices h this),
           vec_y = b3 (matrices h this) * vec_x (vectors h vector)
                    + b4 (matrices h this) * vec_y (vectors h vector) + b5 (matrices h this)\<rparr>)\<rparr>)"
  by (cases "vectors h vector") (simp add: apply_m_def store_vec_def Let_def)

subsection \<open>multiply\<close>

text \<open>
  C1, as the specification states it, fails, twice over. In \<open>heap_pair\<close> the receiver is
  \<open>[1,0,2,0,1,3]\<close> (a translation by \<open>(2,3)\<close>) and the argument \<open>[2,0,0,0,2,0]\<close> (a scaling
  by 2): the source leaves \<open>[2,0,4,0,2,6]\<close> in the receiver, the six formulas of the
  specification give \<open>[2,0,2,0,2,3]\<close>. In \<open>heap_round\<close> the receiver is \<open>[1,0,0,1,1,0]\<close>
  and the argument \<open>[2^24,1,0,0,1,0]\<close>: the first formula, on which the source and the
  specification agree, has the value \<open>16777217\<close>, and slot 0 of the receiver holds
  \<open>16777216\<close>, its conversion to float32.
\<close>

theorem multiply_spec_counterexample:
  "matrices (snd (multiply fround32 0 1 heap_pair)) 0
     = mk_buffer (Fin 2) (Fin 0) (Fin 4) (Fin 0) (Fin 2) (Fin 6)
   \<and> multiply_as_specified (matrices heap_pair 0) (matrices heap_pair 1)
       = mk_buffer (Fin 2) (Fin 0) (Fin 2) (Fin 0) (Fin 2) (Fin 3)
   \<and> matrices (snd (multiply fround32 0 1 heap_pair)) 0
       \<noteq> multiply_as_specified (matrices heap_pair 0) (matrices heap_pair 1)
   \<and> b0 (matrices (snd (multiply fround32 0 1 heap_round)) 0) = Fin 16777216
   \<and> b0 (matrices heap_round 0) * b0 (matrices heap_round 1)
        + b3 (matrices heap_round 0) * b1 (matrices heap_round 1) = Fin 16777217"
  apply (simp add: heap_pair_def heap_round_def multiply_eq multiply_as_specified_def)
  apply (simp add: jsnum_defs fround32_tie)
  apply (simp add: mk_buffer_def)
  done

text \<open>
  C1, amended. For a receiver with coefficients \<open>[a,b,c,d,e,f]\<close> and an argument that is
  another object, with coefficients \<open>[a2,b2,c2,d2,e2,f2]\<close>, \<open>multiply\<close> sets the receiver to
  the float32 conversions of \<open>a*a2 + d*b2\<close>, \<open>b*a2 + e*b2\<close>, \<open>c*a2 + f*b2 + c2\<close>,
  \<open>a*d2 + d*e2\<close>, \<open>b*d2 + e*e2\<close>, \<open>c*d2 + f*e2 + f2\<close> (slots 0 to 5, in this order),
  changes nothing else, and returns the receiver. This holds whatever the arithmetic
  and the conversion are.
\<close>

theorem multiply_formula:
  "this \<noteq> other \<Longrightarrow>
   multiply f32 this other h =
     (this,
      h\<lparr>matrices := (matrices h)(this :=
          \<lparr>b0 = f32 (b0 (matrices h this) * b0 (matrices h other)
                       + b3 (matrices h this) * b1 (matrices h other)),
           b1 = f32 (b1 (matrices h this) * b0 (matrices h other)
                       + b4 (matrices h this) * b1 (matrices h other)),
           b2 = f32 (b2 (matrices h this) * b0 (matrices h other)
                       + b5 (matrices h this) * b1 (matrices h other) + b2 (matrices h other)),
           b3 = f32 (b0 (matrices h this) * b3 (matrices h other)
                       + b3 (matrices h this) * b4 (matrices h other)),
           b4 = f32 (b1 (matrices h this) * b3 (matrices h other)
                       + b4 (matrices h this) * b4 (matrices h other)),
           b5 = f32 (b2 (matrices h this) * b3 (matrices h other)
                       + b5 (matrices h this) * b4 (matrices h other)
                       + b5 (matrices h other))\<rparr>)\<rparr>)"
  by (simp add: multiply_eq with_matrix_def mk_buffer_def)

theorem multiply_formula_witness:
  "(0::nat) \<noteq> 1
   \<and> matrices (snd (multiply fround32 0 1 heap_pair)) 0
       = mk_buffer (Fin 2) (Fin 0) (Fin 4) (Fin 0) (Fin 2) (Fin 6)
   \<and> matrices (snd (multiply fround32 0 1 heap_pair)) 1 = matrices heap_pair 1
   \<and> fst (multiply fround32 0 1 heap_pair) = 0"
  using multiply_formula [of 0 1 fround32 heap_pair]
  apply (simp add: heap_pair_def mk_buffer_def)
  apply (simp add: jsnum_defs)
  done

text \<open>
  C10. Passing the receiver itself as the argument is not the same as passing another
  matrix with equal coefficients. In \<open>heap_twins\<close>, matrices 0 and 1 both hold
  \<open>[1,1,0,1,0,0]\<close>. \<^verbatim>\<open>m0.multiply(m0)\<close> leaves \<open>[2,2,0,1,1,0]\<close> in matrix 0 (slot 1 is
  computed from the slot 0 that the call has just overwritten), and
  \<^verbatim>\<open>m0.multiply(m1)\<close> leaves \<open>[2,1,0,1,1,0]\<close>.
\<close>

theorem multiply_self_differs:
  "matrices heap_twins 1 = matrices heap_twins 0
   \<and> matrices heap_twins 0 = mk_buffer (Fin 1) (Fin 1) (Fin 0) (Fin 1) (Fin 0) (Fin 0)
   \<and> matrices (snd (multiply fround32 0 0 heap_twins)) 0
       = mk_buffer (Fin 2) (Fin 2) (Fin 0) (Fin 1) (Fin 1) (Fin 0)
   \<and> matrices (snd (multiply fround32 0 1 heap_twins)) 0
       = mk_buffer (Fin 2) (Fin 1) (Fin 0) (Fin 1) (Fin 1) (Fin 0)
   \<and> matrices (snd (multiply fround32 0 0 heap_twins)) 0
       \<noteq> matrices (snd (multiply fround32 0 1 heap_twins)) 0"
  apply (simp add: heap_twins_def multiply_def write_slot_def Let_def mk_buffer_def)
  apply (simp add: jsnum_defs)
  done

subsection \<open>scale\<close>

text \<open>
  C7, as the specification states it, fails. In \<open>heap_big\<close> the matrix is
  \<open>[2^127,0,0,0,2^127,0]\<close>. After \<open>scale(2)\<close> slots 0 and 4 hold \<^verbatim>\<open>Infinity\<close>; the
  coefficient times the factor is the number \<open>2^128\<close>.
\<close>

theorem scale_spec_counterexample:
  "matrices (snd (scale fround32 0 (Fin 2) heap_big)) 0
     = mk_buffer PosInf (Fin 0) (Fin 0) (Fin 0) PosInf (Fin 0)
   \<and> b0 (matrices heap_big 0) * Fin 2 = Fin (2 ^ 128)
   \<and> b0 (matrices (snd (scale fround32 0 (Fin 2) heap_big)) 0)
       \<noteq> b0 (matrices heap_big 0) * Fin 2"
  apply (simp add: heap_big_def scale_eq)
  apply (simp add: jsnum_defs fround32_overflow)
  done

text \<open>
  C7, amended. \<open>scale(factor)\<close> replaces each of the six coefficients, the offsets in
  slots 2 and 5 included, by the float32 conversion of the coefficient times \<open>factor\<close>
  (whatever the arithmetic and the conversion are), and returns the receiver. From the
  identity, \<open>translate(2,0)\<close>, then \<open>scale(3)\<close>, then \<open>apply\<close> to the point \<open>(0,0)\<close> gives
  \<open>(6,0)\<close>.
\<close>

theorem scale_all_six:
  "scale f32 this k h =
     (this,
      h\<lparr>matrices := (matrices h)(this :=
          \<lparr>b0 = f32 (b0 (matrices h this) * k), b1 = f32 (b1 (matrices h this) * k),
           b2 = f32 (b2 (matrices h this) * k), b3 = f32 (b3 (matrices h this) * k),
           b4 = f32 (b4 (matrices h this) * k), b5 = f32 (b5 (matrices h this) * k)\<rparr>)\<rparr>)
   \<and> vectors (snd
        (chain (chain (chain (identity fround32 m (with_vector p 0 0 g))
                         (\<lambda>m. translate fround32 m (Fin 2) 0))
                  (\<lambda>m. scale fround32 m (Fin 3)))
           (\<lambda>m. apply_m m p))) p
       = \<lparr>vec_x = Fin 6, vec_y = Fin 0\<rparr>"
  apply (simp add: scale_eq identity_eq translate_eq apply_m_eq with_matrix_def mk_buffer_def)
  apply (simp add: zero_jsnum_def one_jsnum_def)
  apply (simp add: jsnum_defs)
  done

subsection \<open>translate\<close>

text \<open>
  C6, as the specification states it, fails, twice over. On a host whose \<^verbatim>\<open>Math.cos\<close>
  and \<^verbatim>\<open>Math.sin\<close> return \<^verbatim>\<open>6.123233995736766e-17\<close> and \<open>1\<close> at \<^verbatim>\<open>Math.PI / 2\<close>,
  the run identity, \<open>rotate(Math.PI / 2)\<close>, \<open>translate(1,0)\<close>, \<open>apply((0,0))\<close> gives
  \<open>(9253170 / 2^77, 1)\<close>, about \<open>(6.1e-17, 1)\<close>, and not \<open>(0,1)\<close>. And after
  \<open>identity()\<close>, \<open>translate(16777217, 0)\<close> leaves \<open>16777216\<close> in slot 2, where
  \<open>c + (a*dx + b*dy)\<close> is \<open>16777217\<close>.
\<close>

theorem translate_spec_counterexample:
  "vectors (snd
      (chain (chain (chain (identity fround32 0 (with_vector 0 0 0 (heap0 1)))
                       (\<lambda>m. rotate_m fround32 cos_table sin_table m Math_PI_half))
                (\<lambda>m. translate fround32 m 1 0))
         (\<lambda>m. apply_m m 0))) 0
     = \<lparr>vec_x = Fin (9253170 / 2 ^ 77), vec_y = Fin 1\<rparr>
   \<and> vectors (snd
      (chain (chain (chain (identity fround32 0 (with_vector 0 0 0 (heap0 1)))
                       (\<lambda>m. rotate_m fround32 cos_table sin_table m Math_PI_half))
                (\<lambda>m. translate fround32 m 1 0))
         (\<lambda>m. apply_m m 0))) 0
     \<noteq> \<lparr>vec_x = 0, vec_y = 1\<rparr>
   \<and> matrices (snd (chain (identity fround32 0 (heap0 1))
                     (\<lambda>m. translate fround32 m (Fin 16777217) 0))) 0
     = mk_buffer (Fin 1) (Fin 0) (Fin 16777216) (Fin 0) (Fin 1) (Fin 0)
   \<and> Fin 0 + (Fin 1 * Fin 16777217 + Fin 0 * Fin 0) = Fin 16777217"
proof -
  have idem: "fround32 (Fin (9253170 / 2 ^ 77)) = Fin (9253170 / 2 ^ 77)"
    using fround32_representable [of 9253170 "- 77"] by simp
  note c = fround32_cos_half_pi [simplified] and i = idem [simplified]
  have run: "vectors (snd
      (chain (chain (chain (identity fround32 0 (with_vector 0 0 0 (heap0 1)))
                       (\<lambda>m. rotate_m fround32 cos_table sin_table m Math_PI_half))
                (\<lambda>m. translate fround32 m 1 0))
         (\<lambda>m. apply_m m 0))) 0
     = \<lparr>vec_x = Fin (9253170 / 2 ^ 77), vec_y = Fin 1\<rparr>"
    apply (simp add: identity_eq rotate_m_eq translate_eq apply_m_eq cos_table_def sin_table_def)
    apply (simp add: zero_jsnum_def one_jsnum_def rotate_identity_slots c i)
    apply (simp add: jsnum_defs c i)
    done
  have slot: "matrices (snd (chain (identity fround32 0 (heap0 1))
                     (\<lambda>m. translate fround32 m (Fin 16777217) 0))) 0
     = mk_buffer (Fin 1) (Fin 0) (Fin 16777216) (Fin 0) (Fin 1) (Fin 0)
   \<and> Fin 0 + (Fin 1 * Fin 16777217 + Fin 0 * Fin 0) = Fin 16777217"
    apply (simp add: identity_eq translate_eq)
    apply (simp add: zero_jsnum_def one_jsnum_def mk_buffer_def)
    apply (simp add: jsnum_defs fround32_tie)
    done
  show ?thesis
    unfolding run using slot by (simp add: zero_jsnum_def one_jsnum_def)
qed

text \<open>
  C6, amended. \<open>translate(dx,dy)\<close> writes only the two offsets: slot 2 becomes the
  float32 conversion of \<open>c + (a*dx + b*dy)\<close> and slot 5 that of \<open>f + (d*dx + e*dy)\<close>
  (whatever the arithmetic and the conversion are); the slots of \<open>a\<close>, \<open>b\<close>, \<open>d\<close>, \<open>e\<close> keep
  their values. From the identity, \<open>rotate(t)\<close>, then \<open>translate(1,0)\<close>, then \<open>apply\<close> to
  the point \<open>(0,0)\<close> gives a point \<open>(x,1)\<close> with \<open>x\<close> finite and of magnitude at most
  \<open>2^-50\<close>, whenever the host's sine of \<open>t\<close> is \<open>1\<close> and its cosine of \<open>t\<close> is a number of
  magnitude at most \<open>2^-50\<close>: approximately \<open>(0,1)\<close>. In exact arithmetic, with the real
  \<open>pi / 2\<close>, the run gives \<open>(0,1)\<close>.
\<close>

theorem translate_local_frame:
  fixes g :: "jsnum heap" and e :: "real heap"
  shows
  "translate f32 this dx dy h =
     (this,
      h\<lparr>matrices := (matrices h)(this :=
          (matrices h this)
            \<lparr>b2 := f32 (b2 (matrices h this)
                          + (b0 (matrices h this) * dx + b1 (matrices h this) * dy)),
             b5 := f32 (b5 (matrices h this)
                          + (b3 (matrices h this) * dx + b4 (matrices h this) * dy))\<rparr>)\<rparr>)
   \<and> (msin t = Fin 1 \<and> mcos t = Fin eps \<and> \<bar>eps\<bar> \<le> 1 / 2 ^ 50 \<longrightarrow>
        vec_y (vectors (snd
          (chain (chain (chain (identity fround32 m (with_vector p 0 0 g))
                           (\<lambda>m. rotate_m fround32 mcos msin m t))
                    (\<lambda>m. translate fround32 m 1 0))
             (\<lambda>m. apply_m m p))) p) = Fin 1
        \<and> isFinite (vec_x (vectors (snd
          (chain (chain (chain (identity fround32 m (with_vector p 0 0 g))
                           (\<lambda>m. rotate_m fround32 mcos msin m t))
                    (\<lambda>m. translate fround32 m 1 0))
             (\<lambda>m. apply_m m p))) p))
        \<and> \<bar>magnitude (vec_x (vectors (snd
          (chain (chain (chain (identity fround32 m (with_vector p 0 0 g))
                           (\<lambda>m. rotate_m fround32 mcos msin m t))
                    (\<lambda>m. translate fround32 m 1 0))
             (\<lambda>m. apply_m m p))) p))\<bar> \<le> 1 / 2 ^ 50)
   \<and> vectors (snd
        (chain (chain (chain (identity unrounded m (with_vector p 0 0 e))
                         (\<lambda>m. rotate_m unrounded cos sin m (pi / 2)))
                  (\<lambda>m. translate unrounded m 1 0))
           (\<lambda>m. apply_m m p))) p
       = \<lparr>vec_x = 0, vec_y = 1\<rparr>"
proof -
  have general: "translate f32 this dx dy h =
     (this,
      h\<lparr>matrices := (matrices h)(this :=
          (matrices h this)
            \<lparr>b2 := f32 (b2 (matrices h this)
                          + (b0 (matrices h this) * dx + b1 (matrices h this) * dy)),
             b5 := f32 (b5 (matrices h this)
                          + (b3 (matrices h this) * dx + b4 (matrices h this) * dy))\<rparr>)\<rparr>)"
    by (simp add: translate_eq with_matrix_def)
  have exact: "vectors (snd
        (chain (chain (chain (identity unrounded m (with_vector p 0 0 e))
                         (\<lambda>m. rotate_m unrounded cos sin m (pi / 2)))
                  (\<lambda>m. translate unrounded m 1 0))
           (\<lambda>m. apply_m m p))) p
       = \<lparr>vec_x = 0, vec_y = 1\<rparr>"
    by (simp add: identity_eq rotate_m_eq translate_eq apply_m_eq unrounded_def)
  have approx: "vec_y (vectors (snd
          (chain (chain (chain (identity fround32 m (with_vector p 0 0 g))
                           (\<lambda>m. rotate_m fround32 mcos msin m t))
                    (\<lambda>m. translate fround32 m 1 0))
             (\<lambda>m. apply_m m p))) p) = Fin 1
        \<and> tiny (vec_x (vectors (snd
          (chain (chain (chain (identity fround32 m (with_vector p 0 0 g))
                           (\<lambda>m. rotate_m fround32 mcos msin m t))
                    (\<lambda>m. translate fround32 m 1 0))
             (\<lambda>m. apply_m m p))) p))"
    if s: "msin t = Fin 1" and c: "mcos t = Fin eps" and eps: "\<bar>eps\<bar> \<le> 1 / 2 ^ 50"
  proof -
    define B where "B = fround32 (Fin eps)"
    define Z where "Z = fround32 (Fin 0 * Fin eps - Fin 0 * Fin 1)"
    have "tiny (Fin eps)" using eps by (simp add: tiny_def isFinite_def magnitude_def)
    then have B: "tiny B" unfolding B_def by (rule tiny_fround32)
    have Z: "is_zero Z"
      using rotate_identity_slots(3) [of eps] unfolding Z_def
      by (auto dest!: is_zero_cases simp add: is_zero_def)
    have run: "vectors (snd
          (chain (chain (chain (identity fround32 m (with_vector p 0 0 g))
                           (\<lambda>m. rotate_m fround32 mcos msin m t))
                    (\<lambda>m. translate fround32 m 1 0))
             (\<lambda>m. apply_m m p))) p
       = \<lparr>vec_x = B * Fin 0 + Fin (- 1) * Fin 0
                    + fround32 (Z + (B * Fin 1 + Fin (- 1) * Fin 0)),
          vec_y = Fin 1 * Fin 0 + B * Fin 0
                    + fround32 (Fin 0 + (Fin 1 * Fin 1 + B * Fin 0))\<rparr>"
      apply (simp add: identity_eq rotate_m_eq translate_eq apply_m_eq s c)
      apply (simp add: zero_jsnum_def one_jsnum_def rotate_identity_slots(1,2,4,5,6)
               B_def [symmetric] Z_def [symmetric])
      done
    show ?thesis
      unfolding run using approximate_run [OF B Z] by simp
  qed
  show ?thesis
    using general exact approx by (simp add: tiny_def)
qed

theorem translate_local_frame_witness:
  "sin_table Math_PI_half = Fin 1
   \<and> cos_table Math_PI_half = Fin (4967757600021511 / 2 ^ 106)
   \<and> \<bar>4967757600021511 / 2 ^ 106 :: real\<bar> \<le> 1 / 2 ^ 50
   \<and> vec_y (vectors (snd
          (chain (chain (chain (identity fround32 0 (with_vector 0 0 0 (heap0 1)))
                           (\<lambda>m. rotate_m fround32 cos_table sin_table m Math_PI_half))
                    (\<lambda>m. translate fround32 m 1 0))
             (\<lambda>m. apply_m m 0))) 0) = Fin 1
   \<and> \<bar>magnitude (vec_x (vectors (snd
          (chain (chain (chain (identity fround32 0 (with_vector 0 0 0 (heap0 1)))
                           (\<lambda>m. rotate_m fround32 cos_table sin_table m Math_PI_half))
                    (\<lambda>m. translate fround32 m 1 0))
             (\<lambda>m. apply_m m 0))) 0))\<bar> \<le> 1 / 2 ^ 50"
  using translate_local_frame [of fround32 0 1 0 "heap0 1" sin_table Math_PI_half cos_table
      "4967757600021511 / 2 ^ 106" 0 0 "heap0 1" "heap0 1"]
  by (simp add: cos_table_def sin_table_def)

subsection \<open>set: a copy, not a shared buffer\<close>

lemma multiply_frame:
  "k \<noteq> this \<Longrightarrow> matrices (snd (multiply f32 this other h)) k = matrices h k"
  by (simp add: multiply_def Let_def)

lemma call_m_frame:
  "k \<noteq> this \<Longrightarrow> matrices (call_m f32 mcos msin this c h) k = matrices h k"
  by (cases c)
     (simp_all add: identity_eq translate_eq translateAbsolute_eq rotate_m_eq scale_eq
        invert_eq set_m_eq multiply_frame)

lemma calls_frame:
  "k \<noteq> this \<Longrightarrow> matrices (calls f32 mcos msin this cs h) k = matrices h k"
proof (induction cs arbitrary: h)
  case Nil
  show ?case by simp
next
  case (Cons c cs)
  have "matrices (calls f32 mcos msin this (c # cs) h) k
          = matrices (call_m f32 mcos msin this c h) k"
    using Cons by simp
  also have "\<dots> = matrices h k"
    using Cons.prems by (rule call_m_frame)
  finally show ?case .
qed

text \<open>
  C9. For two matrix objects \<open>A\<close> and \<open>B\<close>, \<open>B.set(A)\<close> returns \<open>B\<close>, leaves in \<open>B\<close> the six
  coefficients of \<open>A\<close> and leaves \<open>A\<close> as it was; and whatever then mutates \<open>A\<close>
  (\<open>A.translate(x,y)\<close>, \<open>A.translate(5,5)\<close> among them, or any run \<open>cs\<close> of calls of
  \<open>identity\<close>, \<open>translate\<close>, \<open>translateAbsolute\<close>, \<open>rotate\<close>, \<open>scale\<close>, \<open>multiply\<close>, \<open>invert\<close>
  and \<open>set\<close> with \<open>A\<close> as the receiver), \<open>B\<close> still holds the coefficients that \<open>A\<close> had at
  the copy. This holds whatever the arithmetic, the conversion to float32 and the
  host's cosine and sine are; the last conjunct is \<open>A.translate(5,5)\<close> on JavaScript
  numbers with the conversion \<open>fround32\<close>.
\<close>

theorem set_copies:
  fixes g :: "jsnum heap"
  shows "A \<noteq> B \<Longrightarrow>
    fst (set_m B A h) = B
    \<and> matrices (snd (set_m B A h)) B = matrices h A
    \<and> matrices (snd (set_m B A h)) A = matrices h A
    \<and> matrices (snd (translate f32 A x y (snd (set_m B A h)))) B = matrices h A
    \<and> matrices (calls f32 mcos msin A cs (snd (set_m B A h))) B = matrices h A
    \<and> matrices (snd (translate fround32 A (Fin 5) (Fin 5) (snd (set_m B A g)))) B = matrices g A"
proof -
  assume "A \<noteq> B"
  then have B: "B \<noteq> A" by simp
  have copy: "matrices (snd (set_m B A h)) B = matrices h A"
    by (simp add: set_m_eq)
  have "matrices (snd (translate f32 A x y (snd (set_m B A h)))) B
          = matrices (snd (set_m B A h)) B"
    using B by (simp add: translate_eq)
  moreover have "matrices (calls f32 mcos msin A cs (snd (set_m B A h))) B
                   = matrices (snd (set_m B A h)) B"
    using B by (rule calls_frame)
  moreover have "matrices (snd (translate fround32 A (Fin 5) (Fin 5) (snd (set_m B A g)))) B = matrices g A"
    using B by (simp add: translate_eq set_m_eq)
  ultimately show ?thesis
    using B copy by (simp add: set_m_eq)
qed

theorem set_copies_witness:
  "(0::nat) \<noteq> 1
   \<and> matrices (snd (translate fround32 0 (Fin 5) (Fin 5) (snd (set_m 1 0 heap_copy)))) 1
       = mk_buffer (Fin 1) (Fin 2) (Fin 3) (Fin 4) (Fin 5) (Fin 6)
   \<and> matrices (snd (translate fround32 0 (Fin 5) (Fin 5) (snd (set_m 1 0 heap_copy)))) 0
       = mk_buffer (Fin 1) (Fin 2) (Fin 18) (Fin 4) (Fin 5) (Fin 51)
   \<and> matrices (calls fround32 cos_table sin_table 0
                  [Scale (Fin 2), Multiply 1, Translate (Fin 1) (Fin 0)]
                  (snd (set_m 1 0 heap_copy))) 1
       = mk_buffer (Fin 1) (Fin 2) (Fin 3) (Fin 4) (Fin 5) (Fin 6)
   \<and> matrices (calls fround32 cos_table sin_table 0
                  [Scale (Fin 2), Multiply 1, Translate (Fin 1) (Fin 0)]
                  (snd (set_m 1 0 heap_copy))) 0
       = mk_buffer (Fin 18) (Fin 24) (Fin 51) (Fin 48) (Fin 66) (Fin 138)"
  using set_copies [of 0 1 heap_copy fround32 "Fin 5" "Fin 5" cos_table sin_table
      "[Scale (Fin 2), Multiply 1, Translate (Fin 1) (Fin 0)]" heap_copy]
  apply (simp add: heap_copy_def set_m_eq translate_eq scale_eq multiply_eq)
  apply (simp add: mk_buffer_def)
  apply (simp add: jsnum_defs)
  done

subsection \<open>Composition order\<close>




subsection \<open>invert\<close>

lemma inverse_after_x:
  fixes i :: real
  assumes "i * (a * e - b * d) = 1"
  shows "i * e * (a * x + b * y + c) + i * - b * (d * x + e * y + f) + i * (b * f - c * e) = x"
proof -
  have "i * e * (a * x + b * y + c) + i * - b * (d * x + e * y + f) + i * (b * f - c * e)
          = (i * (a * e - b * d)) * x"
    by (simp add: algebra_simps)
  then show ?thesis by (simp add: assms)
qed

lemma inverse_after_y:
  fixes i :: real
  assumes "i * (a * e - b * d) = 1"
  shows "i * - d * (a * x + b * y + c) + i * a * (d * x + e * y + f) + i * (c * d - a * f) = y"
proof -
  have "i * - d * (a * x + b * y + c) + i * a * (d * x + e * y + f) + i * (c * d - a * f)
          = (i * (a * e - b * d)) * y"
    by (simp add: algebra_simps)
  then show ?thesis by (simp add: assms)
qed

lemma inverse_before_x:
  fixes i :: real
  assumes "i * (a * e - b * d) = 1"
  shows "a * (i * e * x + i * - b * y + i * (b * f - c * e))
           + b * (i * - d * x + i * a * y + i * (c * d - a * f)) + c = x"
proof -
  have "a * (i * e * x + i * - b * y + i * (b * f - c * e))
           + b * (i * - d * x + i * a * y + i * (c * d - a * f)) + c
          = (i * (a * e - b * d)) * x - (i * (a * e - b * d)) * c + c"
    by (simp add: algebra_simps)
  then show ?thesis by (simp add: assms)
qed

lemma inverse_before_y:
  fixes i :: real
  assumes "i * (a * e - b * d) = 1"
  shows "d * (i * e * x + i * - b * y + i * (b * f - c * e))
           + e * (i * - d * x + i * a * y + i * (c * d - a * f)) + f = y"
proof -
  have "d * (i * e * x + i * - b * y + i * (b * f - c * e))
           + e * (i * - d * x + i * a * y + i * (c * d - a * f)) + f
          = (i * (a * e - b * d)) * y - (i * (a * e - b * d)) * f + f"
    by (simp add: algebra_simps)
  then show ?thesis by (simp add: assms)
qed

lemma invert_exact:
  fixes g :: "real heap"
  shows "invert unrounded this g =
     (this, with_matrix this
        (mk_buffer
           (1 / (b0 (matrices g this) * b4 (matrices g this)
                   - b1 (matrices g this) * b3 (matrices g this)) * b4 (matrices g this))
           (1 / (b0 (matrices g this) * b4 (matrices g this)
                   - b1 (matrices g this) * b3 (matrices g this)) * - b1 (matrices g this))
           (1 / (b0 (matrices g this) * b4 (matrices g this)
                   - b1 (matrices g this) * b3 (matrices g this))
              * (b1 (matrices g this) * b5 (matrices g this)
                   - b2 (matrices g this) * b4 (matrices g this)))
           (1 / (b0 (matrices g this) * b4 (matrices g this)
                   - b1 (matrices g this) * b3 (matrices g this)) * - b3 (matrices g this))
           (1 / (b0 (matrices g this) * b4 (matrices g this)
                   - b1 (matrices g this) * b3 (matrices g this)) * b0 (matrices g this))
           (1 / (b0 (matrices g this) * b4 (matrices g this)
                   - b1 (matrices g this) * b3 (matrices g this))
              * (b2 (matrices g this) * b3 (matrices g this)
                   - b0 (matrices g this) * b5 (matrices g this)))) g)"
  unfolding invert_eq unrounded_def ..

text \<open>
  C4, as the specification states it, fails. In \<open>heap_small\<close> the matrix is
  \<open>[2^-140,0,0,0,2^-140,0]\<close>, whose determinant \<open>2^-280\<close> is not zero, and the point is
  \<open>(5,7)\<close>. \<open>invert\<close> leaves \<open>[Infinity,-0,0,-0,Infinity,0]\<close>: slot 0 is not \<open>i*e\<close>, which
  is the number \<open>2^140\<close>, and the result is not the inverse mapping, since applying the
  matrix, inverting it and applying it again gives \<open>(Infinity,Infinity)\<close>.
\<close>

theorem invert_spec_counterexample:
  "\<not> is_zero (b0 (matrices heap_small 0) * b4 (matrices heap_small 0)
               - b1 (matrices heap_small 0) * b3 (matrices heap_small 0))
   \<and> matrices (snd (invert fround32 0 heap_small)) 0
       = mk_buffer PosInf NegZero (Fin 0) NegZero PosInf (Fin 0)
   \<and> 1 / (b0 (matrices heap_small 0) * b4 (matrices heap_small 0)
               - b1 (matrices heap_small 0) * b3 (matrices heap_small 0))
         * b4 (matrices heap_small 0) = Fin (2 ^ 140)
   \<and> vectors (snd (apply_m 0 0 (snd (invert fround32 0 (snd (apply_m 0 0 heap_small)))))) 0
       = \<lparr>vec_x = PosInf, vec_y = PosInf\<rparr>
   \<and> vectors heap_small 0 = \<lparr>vec_x = Fin 5, vec_y = Fin 7\<rparr>"
  apply (simp add: heap_small_def invert_eq apply_m_eq)
  apply (simp add: jsnum_defs fround32_overflow)
  done

text \<open>
  C4, amended. For a matrix with coefficients \<open>[a,b,c,d,e,f]\<close>, with \<open>i = 1/(a*e - b*d)\<close>,
  \<open>invert\<close> replaces the coefficients by the float32 conversions of \<open>i*e\<close>, \<open>i*(-b)\<close>,
  \<open>i*(b*f - c*e)\<close>, \<open>i*(-d)\<close>, \<open>i*a\<close>, \<open>i*(c*d - a*f)\<close> (slots 0 to 5; whatever the
  arithmetic and the conversion are) and returns the receiver. In exact arithmetic (the
  reals, nothing converted), when \<open>a*e - b*d\<close> is not zero, the result is the inverse
  mapping, on both sides: applying the matrix, inverting it and applying it again gives
  the point back, and so does applying the inverted matrix first and a copy of the
  original (kept in another object \<open>k\<close>) second.
\<close>

theorem invert_formula:
  fixes g :: "real heap"
  shows
  "(let a = b0 (matrices h this); b = b1 (matrices h this); c = b2 (matrices h this);
        d = b3 (matrices h this); e = b4 (matrices h this); f = b5 (matrices h this);
        i = 1 / (a * e - b * d)
    in invert f32 this h =
         (this,
          h\<lparr>matrices := (matrices h)(this :=
              \<lparr>b0 = f32 (i * e), b1 = f32 (i * - b), b2 = f32 (i * (b * f - c * e)),
               b3 = f32 (i * - d), b4 = f32 (i * a), b5 = f32 (i * (c * d - a * f))\<rparr>)\<rparr>))
   \<and> (b0 (matrices g this) * b4 (matrices g this)
         - b1 (matrices g this) * b3 (matrices g this) \<noteq> 0 \<longrightarrow>
        vectors (snd (apply_m this p (snd (invert unrounded this (snd (apply_m this p g)))))) p
          = vectors g p
        \<and> (k \<noteq> this \<longrightarrow>
             vectors (snd (apply_m k p (snd (apply_m this p
                        (snd (invert unrounded this (snd (set_m k this g)))))))) p
               = vectors g p))"
proof -
  have formula:
    "(let a = b0 (matrices h this); b = b1 (matrices h this); c = b2 (matrices h this);
          d = b3 (matrices h this); e = b4 (matrices h this); f = b5 (matrices h this);
          i = 1 / (a * e - b * d)
      in invert f32 this h =
           (this,
            h\<lparr>matrices := (matrices h)(this :=
                \<lparr>b0 = f32 (i * e), b1 = f32 (i * - b), b2 = f32 (i * (b * f - c * e)),
                 b3 = f32 (i * - d), b4 = f32 (i * a), b5 = f32 (i * (c * d - a * f))\<rparr>)\<rparr>))"
    by (simp add: Let_def invert_eq with_matrix_def mk_buffer_def)
  define a b c d e f where abc: "a = b0 (matrices g this)" "b = b1 (matrices g this)"
    "c = b2 (matrices g this)" "d = b3 (matrices g this)" "e = b4 (matrices g this)"
    "f = b5 (matrices g this)"
  define i where "i = 1 / (a * e - b * d)"
  obtain x y where p: "vectors g p = \<lparr>vec_x = x, vec_y = y\<rparr>"
    by (cases "vectors g p") simp
  have inv: "\<And>g'. matrices g' this = matrices g this \<Longrightarrow>
      invert unrounded this g' = (this, with_matrix this
        (mk_buffer (i * e) (i * - b) (i * (b * f - c * e))
           (i * - d) (i * a) (i * (c * d - a * f))) g')"
    by (simp add: invert_exact abc i_def)
  have after: "vectors (snd (apply_m this p (snd (invert unrounded this
                  (snd (apply_m this p g)))))) p = vectors g p"
    if det: "a * e - b * d \<noteq> 0"
  proof -
    have i: "i * (a * e - b * d) = 1" using det by (simp add: i_def)
    have "vectors (snd (apply_m this p (snd (invert unrounded this (snd (apply_m this p g)))))) p
        = \<lparr>vec_x = i * e * (a * x + b * y + c) + i * - b * (d * x + e * y + f)
                     + i * (b * f - c * e),
           vec_y = i * - d * (a * x + b * y + c) + i * a * (d * x + e * y + f)
                     + i * (c * d - a * f)\<rparr>"
      by (simp add: apply_m_eq inv p abc [symmetric])
    then show ?thesis
      by (simp only: inverse_after_x [OF i] inverse_after_y [OF i] p)
  qed
  have before: "vectors (snd (apply_m k p (snd (apply_m this p
                  (snd (invert unrounded this (snd (set_m k this g)))))))) p = vectors g p"
    if det: "a * e - b * d \<noteq> 0" and k: "k \<noteq> this"
  proof -
    have i: "i * (a * e - b * d) = 1" using det by (simp add: i_def)
    have "vectors (snd (apply_m k p (snd (apply_m this p
                          (snd (invert unrounded this (snd (set_m k this g)))))))) p
        = \<lparr>vec_x = a * (i * e * x + i * - b * y + i * (b * f - c * e))
                     + b * (i * - d * x + i * a * y + i * (c * d - a * f)) + c,
           vec_y = d * (i * e * x + i * - b * y + i * (b * f - c * e))
                     + e * (i * - d * x + i * a * y + i * (c * d - a * f)) + f\<rparr>"
      using k by (simp add: apply_m_eq set_m_eq inv p abc [symmetric])
    then show ?thesis
      by (simp only: inverse_before_x [OF i] inverse_before_y [OF i] p)
  qed
  show ?thesis
    using formula after before unfolding abc [symmetric] by blast
qed

theorem invert_formula_witness:
  "b0 (matrices heap_invertible 0) * b4 (matrices heap_invertible 0)
     - b1 (matrices heap_invertible 0) * b3 (matrices heap_invertible 0) = 1
   \<and> invert unrounded 0 heap_invertible
       = (0, with_matrix 0 (mk_buffer 1 (- 1) 2 (- 1) 2 (- 7)) heap_invertible)
   \<and> vectors (snd (apply_m 0 0 heap_invertible)) 0 = \<lparr>vec_x = 20, vec_y = 17\<rparr>
   \<and> vectors (snd (apply_m 0 0 (snd (invert unrounded 0 (snd (apply_m 0 0 heap_invertible)))))) 0
       = \<lparr>vec_x = 5, vec_y = 7\<rparr>
   \<and> vectors (snd (apply_m 1 0 (snd (apply_m 0 0
                (snd (invert unrounded 0 (snd (set_m 1 0 heap_invertible)))))))) 0
       = \<lparr>vec_x = 5, vec_y = 7\<rparr>"
  using invert_formula [of heap_invertible 0 unrounded heap_invertible 0 1]
  by (simp add: heap_invertible_def apply_m_eq with_matrix_def mk_buffer_def heap0_def Let_def
        unrounded_def)

subsection \<open>The inverse law\<close>




subsection \<open>invert on a singular matrix\<close>

lemma invert_singular_buffer:
  assumes "is_zero (b0 (matrices h this) * b4 (matrices h this)
                     - b1 (matrices h this) * b3 (matrices h this))"
  shows "nonfinite_buffer (matrices (snd (invert fround32 this h)) this)"
  using inf_times [OF one_over_zero [OF assms]]
  by (simp add: invert_eq nonfinite_buffer_def fround32_nonfinite)

lemma apply_nonfinite:
  assumes "nonfinite_buffer (matrices g this)"
  shows "nonfinite_vector (vectors (snd (apply_m this p g)) p)"
  using assms
  by (simp add: apply_m_eq nonfinite_buffer_def nonfinite_vector_def nonfinite_plus_right)

lemma singular_example:
  fixes h :: "jsnum heap"
  assumes "b0 (matrices h this) = 1" "b1 (matrices h this) = 0"
    "b3 (matrices h this) = 0" "b4 (matrices h this) = 0"
  shows "is_zero (b0 (matrices h this) * b4 (matrices h this)
                     - b1 (matrices h this) * b3 (matrices h this))"
  by (simp add: assms) (simp add: jsnum_defs)

text \<open>
  C5. \<open>invert\<close> has no error result: it returns the receiver whatever the determinant.
  When \<open>a*e - b*d == 0\<close>, none of the six coefficients it leaves is finite (each is an
  infinity or \<open>NaN\<close>), and applying the matrix to any point leaves two non-finite
  coordinates; more generally \<open>apply\<close> with a matrix whose coefficients are all
  non-finite leaves two non-finite coordinates. So it is for \<open>a = 1\<close>, \<open>b = 0\<close>,
  \<open>d = 0\<close>, \<open>e = 0\<close>, with any \<open>c\<close> and \<open>f\<close>.
\<close>

theorem invert_singular:
  "fst (invert fround32 this h) = this
   \<and> (is_zero (b0 (matrices h this) * b4 (matrices h this)
                - b1 (matrices h this) * b3 (matrices h this)) \<longrightarrow>
        nonfinite_buffer (matrices (snd (invert fround32 this h)) this)
        \<and> nonfinite_vector (vectors (snd (apply_m this p (snd (invert fround32 this h)))) p))
   \<and> (nonfinite_buffer (matrices g this) \<longrightarrow>
        nonfinite_vector (vectors (snd (apply_m this p g)) p))
   \<and> (b0 (matrices h this) = 1 \<and> b1 (matrices h this) = 0
        \<and> b3 (matrices h this) = 0 \<and> b4 (matrices h this) = 0 \<longrightarrow>
        nonfinite_buffer (matrices (snd (invert fround32 this h)) this)
        \<and> nonfinite_vector (vectors (snd (apply_m this p (snd (invert fround32 this h)))) p))"
  using invert_singular_buffer [of h this] apply_nonfinite [of _ this p]
    singular_example [of h this]
  by (auto simp add: invert_eq)

theorem invert_singular_witness:
  "is_zero (b0 (matrices heap_singular 0) * b4 (matrices heap_singular 0)
              - b1 (matrices heap_singular 0) * b3 (matrices heap_singular 0))
   \<and> matrices (snd (invert fround32 0 heap_singular)) 0 = mk_buffer NaN NaN NaN NaN PosInf NegInf
   \<and> nonfinite_buffer (matrices (snd (invert fround32 0 heap_singular)) 0)
   \<and> vectors (snd (apply_m 0 0 (snd (invert fround32 0 heap_singular)))) 0
       = \<lparr>vec_x = NaN, vec_y = NaN\<rparr>
   \<and> nonfinite_vector (vectors (snd (apply_m 0 0 (snd (invert fround32 0 heap_singular)))) 0)"
  using invert_singular [of 0 heap_singular 0 heap_singular]
  apply (simp add: heap_singular_def invert_eq apply_m_eq nonfinite_buffer_def
        nonfinite_vector_def)
  apply (simp add: jsnum_defs)
  done

end
